theory Spec2Isabelle
  imports Complex_Main "HOL-Library.Log_Nat"
begin

section \<open>JavaScript numbers\<close>

text \<open>
  The page is TypeScript; every \<open>number\<close> is an IEEE 754 binary64 value. A finite
  number is represented by its exact rational value (the sign of zero is not kept: none
  of the operations modelled below distinguishes \<open>-0\<close> from \<open>0\<close>), together with the
  three non-finite values.
\<close>

datatype number = Finite rat | NaN | PosInfinity | NegInfinity

text \<open>
  \<open>ilog2 x\<close> is the integer \<open>k\<close> with \<open>2^k \<le> x < 2^(k+1)\<close>, for \<open>x > 0\<close>: one less than
  the bit length of the integer part from \<open>1\<close> on, and below \<open>1\<close> the negated least \<open>j\<close>
  with \<open>1 / x \<le> 2^j\<close>.
\<close>

definition ilog2 :: "rat \<Rightarrow> int" where
  "ilog2 x = (if 1 \<le> x then bitlen \<lfloor>x\<rfloor> - 1 else - bitlen (\<lceil>1 / x\<rceil> - 1))"

definition round_half_even :: "rat \<Rightarrow> int" where
  "round_half_even y =
     (let f = \<lfloor>y\<rfloor>; r = y - of_int f
      in if r < 1 / 2 then f else if 1 / 2 < r then f + 1 else if even f then f else f + 1)"

text \<open>
  Rounding of an exact result to binary64, round-to-nearest, ties-to-even: 53 significant
  bits, least exponent \<open>-1074\<close> (subnormals), overflow to infinity from \<open>2^1024\<close> on.
\<close>

definition round_magnitude :: "rat \<Rightarrow> rat" where
  "round_magnitude a =
     (let e = max (ilog2 a - 52) (- 1074)
      in of_int (round_half_even (a / 2 powi e)) * 2 powi e)"

definition round_double :: "rat \<Rightarrow> number" where
  "round_double x =
     (if x = 0 then Finite 0
      else let v = round_magnitude \<bar>x\<bar>
           in if 2 ^ 1024 \<le> v then (if 0 < x then PosInfinity else NegInfinity)
              else Finite (if 0 < x then v else - v))"

text \<open>The operator \<open>*\<close> on numbers.\<close>

fun times_number :: "number \<Rightarrow> number \<Rightarrow> number" where
  "times_number (Finite a) (Finite b) = round_double (a * b)"
| "times_number NaN _ = NaN"
| "times_number _ NaN = NaN"
| "times_number (Finite a) PosInfinity =
     (if a = 0 then NaN else if 0 < a then PosInfinity else NegInfinity)"
| "times_number (Finite a) NegInfinity =
     (if a = 0 then NaN else if 0 < a then NegInfinity else PosInfinity)"
| "times_number PosInfinity (Finite b) =
     (if b = 0 then NaN else if 0 < b then PosInfinity else NegInfinity)"
| "times_number NegInfinity (Finite b) =
     (if b = 0 then NaN else if 0 < b then NegInfinity else PosInfinity)"
| "times_number PosInfinity PosInfinity = PosInfinity"
| "times_number PosInfinity NegInfinity = NegInfinity"
| "times_number NegInfinity PosInfinity = NegInfinity"
| "times_number NegInfinity NegInfinity = PosInfinity"

subsection \<open>Decimal digits\<close>

definition digit_char :: "nat \<Rightarrow> char" where
  "digit_char d = ''0123456789'' ! (d mod 10)"

fun decimal :: "nat \<Rightarrow> string" where
  "decimal n = (if n < 10 then [digit_char n] else decimal (n div 10) @ [digit_char (n mod 10)])"

declare decimal.simps [simp del]

subsection \<open>\<open>Number.prototype.toString\<close> for magnitudes from \<open>10^21\<close> on\<close>

text \<open>
  For a finite \<open>a \<ge> 10^21\<close> the language picks integers \<open>n\<close>, \<open>k\<close>, \<open>s\<close> with
  \<open>10^(k-1) \<le> s < 10^k\<close> such that \<open>s * 10^(n-k)\<close> rounds to \<open>a\<close> and \<open>k\<close> is as small
  as possible (the closest such \<open>s\<close>, the even one on a tie), and prints the digits of
  \<open>s\<close> in exponential notation. \<open>sci_candidates a k\<close> lists the pairs \<open>(s, n)\<close> with \<open>k\<close>
  digits next to \<open>a\<close>.
\<close>

definition sci_candidates :: "rat \<Rightarrow> nat \<Rightarrow> (nat \<times> nat) list" where
  "sci_candidates a k =
     (let n0 = length (decimal (nat \<lfloor>a\<rfloor>));
          lo = nat \<lfloor>a / 10 ^ (n0 - k)\<rfloor>;
          hi = lo + 1
      in [(lo, n0), if hi = 10 ^ k then (10 ^ (k - 1), n0 + 1) else (hi, n0)])"

definition sci_value :: "nat \<Rightarrow> nat \<times> nat \<Rightarrow> rat" where
  "sci_value k c = of_nat (fst c) * 10 ^ (snd c - k)"

definition sci_pick :: "rat \<Rightarrow> nat \<Rightarrow> (nat \<times> nat) option" where
  "sci_pick a k =
     (case filter (\<lambda>c. round_double (sci_value k c) = Finite a) (sci_candidates a k) of
        [] \<Rightarrow> None
      | [c] \<Rightarrow> Some c
      | c # c' # _ \<Rightarrow>
          (let d = \<bar>sci_value k c - a\<bar>; d' = \<bar>sci_value k c' - a\<bar>
           in if d < d' then Some c else if d' < d then Some c'
              else if even (fst c) then Some c else Some c'))"

fun sci_search :: "rat \<Rightarrow> nat \<Rightarrow> nat \<Rightarrow> (nat \<times> nat \<times> nat) option" where
  "sci_search a k 0 = None"
| "sci_search a k (Suc fuel) =
     (case sci_pick a k of
        Some c \<Rightarrow> Some (k, c)
      | None \<Rightarrow> sci_search a (Suc k) fuel)"

definition toString_large :: "rat \<Rightarrow> string" where
  "toString_large a =
     (case sci_search a 1 21 of
        None \<Rightarrow> decimal (nat \<lfloor>a\<rfloor>)
      | Some (k, s, n) \<Rightarrow>
          (let ds = decimal s
           in (if k = 1 then ds else take 1 ds @ ''.'' @ drop 1 ds) @ ''e+'' @ decimal (n - 1)))"

subsection \<open>\<open>Number.prototype.toFixed\<close> with one fraction digit\<close>

text \<open>
  \<open>x.toFixed(1)\<close>: a non-finite \<open>x\<close> prints as by \<open>toString\<close>; otherwise the sign is split
  off, a magnitude from \<open>10^21\<close> on prints as by \<open>toString\<close>, and below that \<open>n\<close> is the
  integer for which \<open>n / 10\<close> is closest to the magnitude (the larger one on a tie), printed
  with a point before its last digit and a leading zero when it has one digit only.
\<close>

definition toFixed1 :: "number \<Rightarrow> string" where
  "toFixed1 x =
     (case x of
        NaN \<Rightarrow> ''NaN''
      | PosInfinity \<Rightarrow> ''Infinity''
      | NegInfinity \<Rightarrow> ''-Infinity''
      | Finite q \<Rightarrow>
          (let s = (if q < 0 then ''-'' else ''''); a = \<bar>q\<bar>
           in if 10 ^ 21 \<le> a then s @ toString_large a
              else let n = nat \<lfloor>a * 10 + 1 / 2\<rfloor>;
                       m = decimal n;
                       m' = (if length m \<le> 1 then replicate (2 - length m) (CHR ''0'') @ m else m)
                   in s @ take (length m' - 1) m' @ ''.'' @ drop (length m' - 1) m'))"

section \<open>Values exchanged with the two services\<close>

text \<open>
  A parsed JSON body. An object is the list of its members; a lookup takes the first
  member with the key. The value \<open>undefined\<close> of a missing property is \<open>None\<close> in
  \<open>json option\<close>.
\<close>

datatype json =
    JNull
  | JBool bool
  | JNumber number
  | JString string
  | JArray "json list"
  | JObject "(string \<times> json) list"

datatype error =
    NetworkError
  | SyntaxError
  | TypeError
  | Error json

text \<open>
  Property access \<open>data.key\<close> for the keys the page reads (\<open>details\<close> and the four plan
  fields, none of them a built-in property of a string, an array, a number or a boolean):
  a \<open>TypeError\<close> on \<open>null\<close>, the member on an object, \<open>undefined\<close> elsewhere.
\<close>

fun get_prop :: "json \<Rightarrow> string \<Rightarrow> error + json option" where
  "get_prop JNull key = Inl TypeError"
| "get_prop (JObject members) key = Inr (map_of members key)"
| "get_prop _ key = Inr None"

text \<open>Truthiness, as \<open>!v\<close> and \<open>v || w\<close> test it.\<close>

fun truthy :: "json option \<Rightarrow> bool" where
  "truthy None = False"
| "truthy (Some JNull) = False"
| "truthy (Some (JBool b)) = b"
| "truthy (Some (JNumber n)) = (n \<noteq> Finite 0 \<and> n \<noteq> NaN)"
| "truthy (Some (JString s)) = (s \<noteq> [])"
| "truthy (Some (JArray xs)) = True"
| "truthy (Some (JObject members)) = True"

section \<open>Data model of the page\<close>

record Disease =
  name :: string
  probability :: number
  description :: "string option"
  treatment :: "string option"

text \<open>
  \<open>generateTreatmentPlan\<close> hands back the parsed response unchanged, so the plan held in the
  state is a JSON value; a plan that follows the interface \<open>TreatmentPlan\<close> is an object
  with four arrays of strings.
\<close>

definition TreatmentPlan :: "string list \<Rightarrow> string list \<Rightarrow> string list \<Rightarrow> string list \<Rightarrow> json" where
  "TreatmentPlan immediate long_term organic chemical =
     JObject
       [(''immediate_steps'', JArray (map JString immediate)),
        (''long_term_prevention'', JArray (map JString long_term)),
        (''organic_alternatives'', JArray (map JString organic)),
        (''chemical_solutions'', JArray (map JString chemical))]"

record AssessmentResult =
  diseases :: "Disease list"
  treatment_plan :: json
  imageUrl :: string

record File =
  file_name :: string

record State =
  selectedImage :: "File option"
  previewUrl :: string
  isLoading :: bool
  isGeneratingTreatment :: bool
  result :: "AssessmentResult option"

definition initial_state :: State where
  "initial_state =
     \<lparr>selectedImage = None, previewUrl = '''', isLoading = False,
      isGeneratingTreatment = False, result = None\<rparr>"

subsection \<open>handleImageSelect\<close>

text \<open>
  The change event carries \<open>e.target.files?.[0]\<close>: a file or \<open>undefined\<close>.
  \<open>URL.createObjectURL\<close> belongs to the browser and is a parameter.
\<close>

definition handleImageSelect :: "(File \<Rightarrow> string) \<Rightarrow> File option \<Rightarrow> State \<Rightarrow> State" where
  "handleImageSelect createObjectURL e s =
     (case e of
        Some file \<Rightarrow>
          s\<lparr>selectedImage := Some file, previewUrl := createObjectURL file, result := None\<rparr>
      | None \<Rightarrow> s)"

section \<open>Effects\<close>

text \<open>
  The handlers are asynchronous and act on the world through \<open>fetch\<close>, \<open>toast\<close>,
  \<open>console.error\<close> and the state setters. A run of a handler is the list of these effects
  in the order in which it performs them; what the world answers is an input of the run.
\<close>

record toast =
  toast_title :: string
  toast_description :: string
  toast_variant :: "string option"

datatype request_body =
    HealthAssessmentBody "string list" "string list" bool "string list"
  | GenerateTreatmentBody "Disease list" string

record request =
  url :: string
  http_method :: string
  headers :: "(string \<times> string) list"
  body :: request_body

datatype event =
    Fetch request
  | ConsoleError string error
  | Toast toast
  | SetResult "AssessmentResult option"
  | SetTreatmentPlan json
  | SetIsLoading bool
  | SetIsGeneratingTreatment bool

text \<open>
  What a \<open>fetch\<close> gives: the promise rejects (the network call fails), or a response
  arrives with its \<open>ok\<close> flag and the outcome of \<open>response.json()\<close>.
\<close>

datatype 'a fetch_outcome = Rejected | Response bool 'a

text \<open>
  The body of the diagnostic service as \<open>handleAssess\<close> reads it with
  \<open>data.health_assessment.diseases\<close>: not JSON at all, JSON without a \<open>health_assessment\<close>
  member to read \<open>diseases\<close> from, or a disease list as the interface \<open>Disease[]\<close> declares it.
\<close>

datatype health_data = NotJson | NoHealthAssessment | HealthAssessment "Disease list"

record environment =
  api_key :: "string option"
  reader_result :: "string option"
  diagnosis :: "health_data fetch_outcome"
  generation :: "json option fetch_outcome"

text \<open>
  \<open>SetTreatmentPlan p\<close> is the functional update
  \<open>setResult(prev => prev ? {...prev, treatment_plan: p} : null)\<close>.
\<close>

fun apply_event :: "event \<Rightarrow> State \<Rightarrow> State" where
  "apply_event (SetResult r) s = s\<lparr>result := r\<rparr>"
| "apply_event (SetTreatmentPlan p) s =
     s\<lparr>result := (case result s of Some prev \<Rightarrow> Some (prev\<lparr>treatment_plan := p\<rparr>) | None \<Rightarrow> None)\<rparr>"
| "apply_event (SetIsLoading b) s = s\<lparr>isLoading := b\<rparr>"
| "apply_event (SetIsGeneratingTreatment b) s = s\<lparr>isGeneratingTreatment := b\<rparr>"
| "apply_event _ s = s"

text \<open>The states a run passes through, the starting state first.\<close>

fun states :: "State \<Rightarrow> event list \<Rightarrow> State list" where
  "states s [] = [s]"
| "states s (e # es) = s # states (apply_event e s) es"

definition final_state :: "State \<Rightarrow> event list \<Rightarrow> State" where
  "final_state s es = last (states s es)"

section \<open>generateTreatmentPlan\<close>

text \<open>\<open>(d.probability * 100).toFixed(1)\<close>, as the prompt and the results view both compute it.\<close>

definition confidence :: "Disease \<Rightarrow> string" where
  "confidence d = toFixed1 (times_number (probability d) (Finite 100))"

fun join :: "string \<Rightarrow> string list \<Rightarrow> string" where
  "join sep [] = ''''"
| "join sep [x] = x"
| "join sep (x # y # ys) = x @ sep @ join sep (y # ys)"

definition describe_disease :: "Disease \<Rightarrow> string" where
  "describe_disease d = name d @ '' ('' @ confidence d @ ''% confidence)''"

definition prompt_head :: string where
  "prompt_head = ''Act as a plant pathologist. For these detected diseases: ''"

definition prompt_tail :: string where
  "prompt_tail =
     ''. \<newline>'' @
     ''        Provide:\<newline>'' @
     ''        1. Immediate treatment steps\<newline>'' @
     ''        2. Long-term prevention strategies\<newline>'' @
     ''        3. Organic alternatives\<newline>'' @
     ''        4. Chemical solutions (if necessary)\<newline>'' @
     ''        Format as JSON with markdown formatting in descriptions.''"

definition treatment_prompt :: "Disease list \<Rightarrow> string" where
  "treatment_prompt ds = prompt_head @ join '', '' (map describe_disease ds) @ prompt_tail"

definition generation_request :: "Disease list \<Rightarrow> request" where
  "generation_request ds =
     \<lparr>url = ''/api/generate-treatment'', http_method = ''POST'',
      headers = [(''Content-Type'', ''application/json'')],
      body = GenerateTreatmentBody ds (treatment_prompt ds)\<rparr>"

text \<open>\<open>a || b\<close> on values.\<close>

definition or_else :: "json option \<Rightarrow> json \<Rightarrow> json" where
  "or_else a b = (case a of Some v \<Rightarrow> if truthy (Some v) then v else b | None \<Rightarrow> b)"

text \<open>
  The chain \<open>!data.k1 || !data.k2 || ...\<close>, evaluated left to right and stopping at the
  first falsy field; the property access itself throws on \<open>null\<close>.
\<close>

fun some_field_falsy :: "json \<Rightarrow> string list \<Rightarrow> error + bool" where
  "some_field_falsy data [] = Inr False"
| "some_field_falsy data (k # ks) =
     (case get_prop data k of
        Inl e \<Rightarrow> Inl e
      | Inr v \<Rightarrow> if \<not> truthy v then Inr True else some_field_falsy data ks)"

definition plan_fields :: "string list" where
  "plan_fields =
     [''immediate_steps'', ''long_term_prevention'', ''organic_alternatives'', ''chemical_solutions'']"

text \<open>The \<open>try\<close> block: \<open>Inl\<close> is the error thrown, \<open>Inr\<close> the value returned.\<close>

definition generateTreatmentPlan_try :: "json option fetch_outcome \<Rightarrow> error + json" where
  "generateTreatmentPlan_try outcome =
     (case outcome of
        Rejected \<Rightarrow> Inl NetworkError
      | Response ok parsed \<Rightarrow>
          if \<not> ok then
            (case parsed of
               None \<Rightarrow> Inl SyntaxError
             | Some errorData \<Rightarrow>
                 (case get_prop errorData ''details'' of
                    Inl e \<Rightarrow> Inl e
                  | Inr details \<Rightarrow>
                      Inl (Error (or_else details (JString ''Failed to generate treatment plan'')))))
          else
            (case parsed of
               None \<Rightarrow> Inl SyntaxError
             | Some data \<Rightarrow>
                 (case some_field_falsy data plan_fields of
                    Inl e \<Rightarrow> Inl e
                  | Inr True \<Rightarrow> Inl (Error (JString ''Invalid treatment plan format''))
                  | Inr False \<Rightarrow> Inr data)))"

definition fallback_plan :: json where
  "fallback_plan =
     TreatmentPlan
       [''Isolate affected plants to prevent spread'',
        ''Remove and destroy severely infected parts'',
        ''Monitor plant health daily'']
       [''Maintain proper plant spacing for air circulation'',
        ''Follow recommended watering practices'',
        ''Regular inspection of plants'']
       [''Use neem oil solution'',
        ''Apply baking soda spray'',
        ''Try garlic-based natural fungicide'']
       [''Consult with a local agricultural expert for specific chemical treatments'',
        ''Follow safety guidelines when using chemical treatments'']"

text \<open>
  The whole function: its effects, and how its promise settles (\<open>Inl\<close> rejected with an
  error, \<open>Inr\<close> fulfilled with a value). The \<open>catch\<close> block logs and returns the fallback.
\<close>

definition generateTreatmentPlan ::
  "Disease list \<Rightarrow> json option fetch_outcome \<Rightarrow> event list \<times> (error + json)" where
  "generateTreatmentPlan ds outcome =
     (case generateTreatmentPlan_try outcome of
        Inr data \<Rightarrow> ([Fetch (generation_request ds)], Inr data)
      | Inl e \<Rightarrow>
          ([Fetch (generation_request ds), ConsoleError ''Error generating treatment plan:'' e],
           Inr fallback_plan))"

section \<open>handleAssess\<close>

text \<open>\<open>s.split(sep)\<close> and the indexing \<open>[1]\<close> of its result, \<open>undefined\<close> when there is no such part.\<close>

fun split :: "char \<Rightarrow> string \<Rightarrow> string list" where
  "split sep [] = [[]]"
| "split sep (c # cs) =
     (if c = sep then [] # split sep cs
      else (case split sep cs of p # ps \<Rightarrow> (c # p) # ps | [] \<Rightarrow> [[c]]))"

definition second_part :: "string list \<Rightarrow> string option" where
  "second_part parts = (case parts of _ # p # _ \<Rightarrow> Some p | _ \<Rightarrow> None)"

definition diagnosis_request :: "string option \<Rightarrow> string option \<Rightarrow> request" where
  "diagnosis_request key base64Image =
     \<lparr>url = ''https://api.plant.id/v2/health_assessment'', http_method = ''POST'',
      headers =
        [(''Content-Type'', ''application/json''),
         (''Api-Key'', (case key of Some k \<Rightarrow> k | None \<Rightarrow> ''''))],
      body =
        HealthAssessmentBody
          [''data:image/jpeg;base64,'' @ (case base64Image of Some b \<Rightarrow> b | None \<Rightarrow> ''undefined'')]
          [''leaf'', ''flower''] True [''disease'', ''description'', ''treatment'']\<rparr>"

definition pending_plan :: json where
  "pending_plan = TreatmentPlan [] [] [] []"

definition no_image_toast :: toast where
  "no_image_toast =
     \<lparr>toast_title = ''No image selected'',
      toast_description = ''Please select an image to assess'',
      toast_variant = Some ''destructive''\<rparr>"

definition generation_failed_toast :: toast where
  "generation_failed_toast =
     \<lparr>toast_title = ''Treatment Plan Generation Failed'',
      toast_description =
        ''We couldn't generate a treatment plan, but you can still see the disease diagnosis.'',
      toast_variant = Some ''destructive''\<rparr>"

definition assessment_complete_toast :: toast where
  "assessment_complete_toast =
     \<lparr>toast_title = ''Assessment Complete'',
      toast_description = ''Plant health assessment has been completed successfully'',
      toast_variant = None\<rparr>"

definition assessment_failed_toast :: toast where
  "assessment_failed_toast =
     \<lparr>toast_title = ''Assessment Failed'',
      toast_description = ''Failed to assess plant health. Please try again.'',
      toast_variant = Some ''destructive''\<rparr>"

text \<open>
  The inner \<open>try / catch / finally\<close> around the call of \<open>generateTreatmentPlan\<close>.
\<close>

definition treatment_stage :: "environment \<Rightarrow> Disease list \<Rightarrow> event list" where
  "treatment_stage env ds =
     (case generateTreatmentPlan ds (generation env) of
        (effects, Inr treatmentPlan) \<Rightarrow>
          effects @ [SetTreatmentPlan treatmentPlan] @ [SetIsGeneratingTreatment False]
      | (effects, Inl e) \<Rightarrow>
          effects @
          [ConsoleError ''Error generating treatment plan:'' e, Toast generation_failed_toast] @
          [SetIsGeneratingTreatment False])"

text \<open>
  The outer \<open>try\<close> block from the \<open>fetch\<close> of the diagnostic service on: its effects and,
  when it throws, the error.
\<close>

definition assess_try :: "environment \<Rightarrow> State \<Rightarrow> string option \<Rightarrow> event list \<times> error option" where
  "assess_try env s base64Image =
     (let call = Fetch (diagnosis_request (api_key env) base64Image)
      in case diagnosis env of
           Rejected \<Rightarrow> ([call], Some NetworkError)
         | Response ok parsed \<Rightarrow>
             if \<not> ok then ([call], Some (Error (JString ''Failed to assess plant health'')))
             else
               (case parsed of
                  NotJson \<Rightarrow> ([call], Some SyntaxError)
                | NoHealthAssessment \<Rightarrow> ([call], Some TypeError)
                | HealthAssessment ds \<Rightarrow>
                    ([call,
                      SetResult
                        (Some \<lparr>diseases = ds, treatment_plan = pending_plan, imageUrl = previewUrl s\<rparr>),
                      SetIsGeneratingTreatment True] @
                     treatment_stage env ds @
                     [Toast assessment_complete_toast],
                     None)))"

text \<open>
  The handler. When the file read ends without a result, the \<open>onloadend\<close> callback throws
  before it calls \<open>resolve\<close>: the promise awaited is never settled and the run stops there.
\<close>

definition handleAssess :: "environment \<Rightarrow> State \<Rightarrow> event list" where
  "handleAssess env s =
     (case selectedImage s of
        None \<Rightarrow> [Toast no_image_toast]
      | Some file \<Rightarrow>
          (case reader_result env of
             None \<Rightarrow> [SetIsLoading True]
           | Some base64 \<Rightarrow>
               (case assess_try env s (second_part (split CHR '','' base64)) of
                  (effects, None) \<Rightarrow> [SetIsLoading True] @ effects @ [SetIsLoading False]
                | (effects, Some e) \<Rightarrow>
                    [SetIsLoading True] @ effects @
                    [ConsoleError ''Error assessing plant health:'' e, Toast assessment_failed_toast] @
                    [SetIsLoading False])))"

section \<open>The results view\<close>

text \<open>
  The results card is rendered when \<open>result\<close> is not \<open>null\<close>; each disease row shows
  \<open>{(disease.probability * 100).toFixed(1)}% confidence\<close>.
\<close>

definition displayed :: "State \<Rightarrow> AssessmentResult option" where
  "displayed s = result s"


section \<open>The page as a transition system\<close>

text \<open>
  The file input is \<open>disabled={isLoading}\<close> and the button is
  \<open>disabled={!selectedImage || isLoading}\<close>, so an image is selected and an assessment is
  started only while no assessment is loading. Every state that a run of \<open>handleAssess\<close>
  passes through can be rendered.
\<close>

inductive reachable :: "State \<Rightarrow> bool" where
  start: "reachable initial_state"
| select: "reachable s \<Longrightarrow> \<not> isLoading s \<Longrightarrow> reachable (handleImageSelect createObjectURL e s)"
| assess: "reachable s \<Longrightarrow> \<not> isLoading s \<Longrightarrow> s' \<in> set (states s (handleAssess env s)) \<Longrightarrow> reachable s'"

section \<open>Observations used to state the properties\<close>

text \<open>The addresses of the network calls of a run, in order.\<close>

fun fetched_urls :: "event list \<Rightarrow> string list" where
  "fetched_urls [] = []"
| "fetched_urls (Fetch r # es) = url r # fetched_urls es"
| "fetched_urls (_ # es) = fetched_urls es"

text \<open>The notifications of a run, in order.\<close>

fun toasts :: "event list \<Rightarrow> toast list" where
  "toasts [] = []"
| "toasts (Toast t # es) = t # toasts es"
| "toasts (_ # es) = toasts es"

text \<open>A field is present in a response when reading it gives a value.\<close>

definition has_field :: "json \<Rightarrow> string \<Rightarrow> bool" where
  "has_field data k = (case get_prop data k of Inr (Some v) \<Rightarrow> True | _ \<Rightarrow> False)"

definition missing_some_field :: "json option \<Rightarrow> bool" where
  "missing_some_field parsed =
     (case parsed of None \<Rightarrow> True | Some data \<Rightarrow> \<exists>k \<in> set plan_fields. \<not> has_field data k)"

text \<open>The four fields of a plan are all empty lists, or all non-empty lists.\<close>

definition is_empty_list :: "json option \<Rightarrow> bool" where
  "is_empty_list v = (v = Some (JArray []))"

definition is_populated_list :: "json option \<Rightarrow> bool" where
  "is_populated_list v = (case v of Some (JArray (x # xs)) \<Rightarrow> True | _ \<Rightarrow> False)"

definition all_empty :: "json \<Rightarrow> bool" where
  "all_empty plan = list_all (\<lambda>k. case get_prop plan k of Inr v \<Rightarrow> is_empty_list v | Inl e \<Rightarrow> False) plan_fields"

definition all_populated :: "json \<Rightarrow> bool" where
  "all_populated plan = list_all (\<lambda>k. case get_prop plan k of Inr v \<Rightarrow> is_populated_list v | Inl e \<Rightarrow> False) plan_fields"

text \<open>The validation of \<open>generateTreatmentPlan\<close> lets a value through.\<close>

definition passes_validation :: "json \<Rightarrow> bool" where
  "passes_validation data = (some_field_falsy data plan_fields = Inr False)"

subsection \<open>Concrete runs\<close>

text \<open>
  Inputs at which the properties below are evaluated: a selected image, a diagnosis that
  finds one disease with probability \<open>0.5\<close>, and two answers of the generation service.
\<close>

definition leaf_jpg :: File where
  "leaf_jpg = \<lparr>file_name = ''leaf.jpg''\<rparr>"

definition blob_url :: "File \<Rightarrow> string" where
  "blob_url f = ''blob:'' @ file_name f"

definition image_selected :: State where
  "image_selected = handleImageSelect blob_url (Some leaf_jpg) initial_state"

definition leaf_rust :: Disease where
  "leaf_rust =
     \<lparr>name = ''Leaf rust'', probability = Finite (1 / 2), description = None, treatment = None\<rparr>"

definition env_of :: "health_data fetch_outcome \<Rightarrow> json option fetch_outcome \<Rightarrow> environment" where
  "env_of d g =
     \<lparr>api_key = Some ''key'', reader_result = Some ''data:image/jpeg;base64,AAAA'',
      diagnosis = d, generation = g\<rparr>"

definition steps_only :: json where
  "steps_only = TreatmentPlan [''Prune the infected leaves''] [] [] []"

definition without_chemical_solutions :: json where
  "without_chemical_solutions =
     JObject
       [(''immediate_steps'', JArray [JString ''Prune the infected leaves'']),
        (''long_term_prevention'', JArray [JString ''Rotate crops'']),
        (''organic_alternatives'', JArray [JString ''Use neem oil solution''])]"

definition one_disease_found :: "health_data fetch_outcome" where
  "one_disease_found = Response True (HealthAssessment [leaf_rust])"

text \<open>
  The state at the end of a run in which diagnosis finds one disease and the generation
  service answers with a plan whose only non-empty list is \<open>immediate_steps\<close>.
\<close>

definition partly_populated :: State where
  "partly_populated =
     final_state image_selected
       (handleAssess (env_of one_disease_found (Response True (Some steps_only))) image_selected)"


section \<open>Verification\<close>

subsection \<open>Image selection\<close>

text \<open>
  C5. Whatever the prior state, selecting a new image file makes that file the selected
  image, sets the preview to the object URL of the file, and resets the stored result to
  \<open>null\<close>, so nothing of an earlier assessment is displayed.
\<close>

theorem select_new_image_discards_result:
  "selectedImage (handleImageSelect createObjectURL (Some file) s) = Some file \<and>
   previewUrl (handleImageSelect createObjectURL (Some file) s) = createObjectURL file \<and>
   result (handleImageSelect createObjectURL (Some file) s) = None \<and>
   displayed (handleImageSelect createObjectURL (Some file) s) = None"
  by (simp add: handleImageSelect_def displayed_def)

text \<open>
  C10. A selection event that carries no file leaves the whole component state as it was.
\<close>

theorem select_without_file_is_noop:
  "handleImageSelect createObjectURL None s = s"
  by (simp add: handleImageSelect_def)

subsection \<open>Treatment-plan generation\<close>

lemma truthy_Some: "truthy v \<Longrightarrow> \<exists>y. v = Some y"
  by (cases v) auto

lemma some_field_falsy_False:
  "some_field_falsy data ks = Inr False \<Longrightarrow> k \<in> set ks \<Longrightarrow> \<exists>v. get_prop data k = Inr v \<and> truthy v"
  by (induction ks) (auto split: sum.splits if_splits)

lemma passes_validation_has_field:
  "passes_validation data \<Longrightarrow> k \<in> set plan_fields \<Longrightarrow> has_field data k"
  unfolding passes_validation_def
  by (auto simp: has_field_def dest!: some_field_falsy_False truthy_Some)

lemma try_Inr_iff:
  "generateTreatmentPlan_try outcome = Inr data \<longleftrightarrow>
     outcome = Response True (Some data) \<and> passes_validation data"
  by (auto simp: generateTreatmentPlan_try_def passes_validation_def
           split: fetch_outcome.splits option.splits sum.splits bool.splits if_splits)

lemma generateTreatmentPlan_valid:
  "passes_validation data \<Longrightarrow>
   generateTreatmentPlan ds (Response True (Some data)) = ([Fetch (generation_request ds)], Inr data)"
  using try_Inr_iff[of "Response True (Some data)" data]
  by (simp add: generateTreatmentPlan_def)

lemma generateTreatmentPlan_invalid:
  assumes "\<And>data. outcome = Response True (Some data) \<Longrightarrow> \<not> passes_validation data"
  shows "\<exists>e. generateTreatmentPlan ds outcome =
           ([Fetch (generation_request ds), ConsoleError ''Error generating treatment plan:'' e],
            Inr fallback_plan)"
proof (cases "generateTreatmentPlan_try outcome")
  case (Inl e)
  then show ?thesis by (simp add: generateTreatmentPlan_def)
next
  case (Inr d)
  with assms show ?thesis by (simp add: try_Inr_iff)
qed

lemma treatment_stage_valid:
  "generation env = Response True (Some data) \<Longrightarrow> passes_validation data \<Longrightarrow>
   treatment_stage env ds =
     [Fetch (generation_request ds), SetTreatmentPlan data, SetIsGeneratingTreatment False]"
  by (simp add: treatment_stage_def generateTreatmentPlan_valid)

lemma treatment_stage_invalid:
  assumes "\<And>data. generation env = Response True (Some data) \<Longrightarrow> \<not> passes_validation data"
  shows "\<exists>e. treatment_stage env ds =
           [Fetch (generation_request ds), ConsoleError ''Error generating treatment plan:'' e,
            SetTreatmentPlan fallback_plan, SetIsGeneratingTreatment False]"
proof -
  from generateTreatmentPlan_invalid[of "generation env" ds] assms
  obtain e where "generateTreatmentPlan ds (generation env) =
           ([Fetch (generation_request ds), ConsoleError ''Error generating treatment plan:'' e],
            Inr fallback_plan)"
    by blast
  then show ?thesis by (simp add: treatment_stage_def)
qed

lemma handleAssess_no_image:
  "selectedImage s = None \<Longrightarrow> handleAssess env s = [Toast no_image_toast]"
  by (simp add: handleAssess_def)

lemma handleAssess_read_failed:
  "selectedImage s = Some file \<Longrightarrow> reader_result env = None \<Longrightarrow>
   handleAssess env s = [SetIsLoading True]"
  by (simp add: handleAssess_def)

lemma handleAssess_diagnosis_failed:
  assumes "selectedImage s = Some file" "reader_result env = Some base64"
    and "\<And>ds. diagnosis env \<noteq> Response True (HealthAssessment ds)"
  shows "\<exists>e. handleAssess env s =
           [SetIsLoading True,
            Fetch (diagnosis_request (api_key env) (second_part (split CHR '','' base64))),
            ConsoleError ''Error assessing plant health:'' e,
            Toast assessment_failed_toast,
            SetIsLoading False]"
  using assms
  by (auto simp: handleAssess_def assess_try_def Let_def
           split: fetch_outcome.splits health_data.splits)

lemma handleAssess_diagnosis_ok:
  assumes "selectedImage s = Some file" "reader_result env = Some base64"
    and "diagnosis env = Response True (HealthAssessment ds)"
  shows "handleAssess env s =
           [SetIsLoading True,
            Fetch (diagnosis_request (api_key env) (second_part (split CHR '','' base64))),
            SetResult (Some \<lparr>diseases = ds, treatment_plan = pending_plan, imageUrl = previewUrl s\<rparr>),
            SetIsGeneratingTreatment True] @
           treatment_stage env ds @
           [Toast assessment_complete_toast, SetIsLoading False]"
  using assms
  by (simp add: handleAssess_def assess_try_def Let_def)

lemma treatment_stage_toasts: "toasts (treatment_stage env ds) = []"
proof (cases "\<exists>data. generation env = Response True (Some data) \<and> passes_validation data")
  case True
  then show ?thesis by (auto simp: treatment_stage_valid)
next
  case False
  then obtain e where "treatment_stage env ds =
           [Fetch (generation_request ds), ConsoleError ''Error generating treatment plan:'' e,
            SetTreatmentPlan fallback_plan, SetIsGeneratingTreatment False]"
    using treatment_stage_invalid[of env ds] by blast
  then show ?thesis by simp
qed

lemma toasts_append: "toasts (xs @ ys) = toasts xs @ toasts ys"
  by (induction xs rule: toasts.induct) auto

lemma fetched_urls_append: "fetched_urls (xs @ ys) = fetched_urls xs @ fetched_urls ys"
  by (induction xs rule: fetched_urls.induct) auto

lemma toasts_set: "Toast t \<in> set es \<longleftrightarrow> t \<in> set (toasts es)"
  by (induction es rule: toasts.induct) auto

lemma handleAssess_toasts:
  "toasts (handleAssess env s) \<in>
     {[no_image_toast], [], [assessment_failed_toast], [assessment_complete_toast]}"
proof (cases "selectedImage s")
  case None
  then show ?thesis by (simp add: handleAssess_no_image)
next
  case (Some f)
  note img = this
  show ?thesis
  proof (cases "reader_result env")
    case None
    with img show ?thesis by (simp add: handleAssess_read_failed)
  next
    case (Some base64)
    show ?thesis
    proof (cases "\<exists>ds. diagnosis env = Response True (HealthAssessment ds)")
      case True
      then obtain ds where "diagnosis env = Response True (HealthAssessment ds)" by blast
      from handleAssess_diagnosis_ok[OF img Some this] show ?thesis
        by (simp add: toasts_append treatment_stage_toasts)
    next
      case False
      then have "\<And>ds. diagnosis env \<noteq> Response True (HealthAssessment ds)" by blast
      from handleAssess_diagnosis_failed[OF img Some this] show ?thesis
        by auto
    qed
  qed
qed

text \<open>
  C1. When the generation call fails, or the response lacks at least one of the four
  fields \<open>immediate_steps\<close>, \<open>long_term_prevention\<close>, \<open>organic_alternatives\<close>,
  \<open>chemical_solutions\<close> (or has no JSON body to hold them), \<open>generateTreatmentPlan\<close> is
  fulfilled with the fixed fallback plan; it does not reject.
\<close>

theorem generateTreatmentPlan_fallback:
  assumes "outcome = Rejected \<or> (\<exists>ok parsed. outcome = Response ok parsed \<and> missing_some_field parsed)"
  shows "snd (generateTreatmentPlan ds outcome) = Inr fallback_plan"
proof -
  have "\<not> passes_validation data" if o: "outcome = Response True (Some data)" for data
  proof
    assume p: "passes_validation data"
    from assms o have "missing_some_field (Some data)" by auto
    then obtain k where "k \<in> set plan_fields" "\<not> has_field data k"
      by (auto simp: missing_some_field_def)
    with p show False
      using passes_validation_has_field by blast
  qed
  from generateTreatmentPlan_invalid[OF this] show ?thesis
    by (metis snd_conv)
qed

theorem generateTreatmentPlan_fallback_witness:
  "missing_some_field (Some without_chemical_solutions) \<and>
   snd (generateTreatmentPlan [leaf_rust] (Response True (Some without_chemical_solutions))) =
     Inr fallback_plan \<and>
   snd (generateTreatmentPlan [leaf_rust] Rejected) = Inr fallback_plan \<and>
   result (final_state image_selected (handleAssess (env_of one_disease_found Rejected) image_selected)) =
     Some \<lparr>diseases = [leaf_rust], treatment_plan = fallback_plan, imageUrl = ''blob:leaf.jpg''\<rparr>"
proof -
  have m: "missing_some_field (Some without_chemical_solutions)"
    by (simp add: missing_some_field_def without_chemical_solutions_def plan_fields_def has_field_def)
  have a: "snd (generateTreatmentPlan [leaf_rust] (Response True (Some without_chemical_solutions))) =
      Inr fallback_plan"
    by (rule generateTreatmentPlan_fallback) (use m in blast)
  have b: "snd (generateTreatmentPlan [leaf_rust] Rejected) = Inr fallback_plan"
    by (rule generateTreatmentPlan_fallback) simp
  have c: "result (final_state image_selected (handleAssess (env_of one_disease_found Rejected) image_selected)) =
     Some \<lparr>diseases = [leaf_rust], treatment_plan = fallback_plan, imageUrl = ''blob:leaf.jpg''\<rparr>"
    by (simp add: final_state_def handleAssess_def assess_try_def treatment_stage_def
        generateTreatmentPlan_def generateTreatmentPlan_try_def env_of_def one_disease_found_def
        image_selected_def handleImageSelect_def initial_state_def blob_url_def leaf_jpg_def)
  from m a b c show ?thesis by simp
qed

text \<open>
  C9. \<open>generateTreatmentPlan\<close> never rejects, for every disease list and every outcome of
  the generation call. Each error thrown in its \<open>try\<close> block is caught there, logged, and
  replaced by the fallback plan; the \<open>try\<close> block returns a value only for an \<open>ok\<close>
  response whose body passes the validation, and that body is then the plan returned. So
  the promise is always fulfilled, with the fallback plan or with a validated response,
  and the \<open>catch\<close> branch around the call in \<open>handleAssess\<close>, which shows the notification
  "Treatment Plan Generation Failed", is never taken.
\<close>

theorem generateTreatmentPlan_never_rejects:
  "(\<forall>e. generateTreatmentPlan_try outcome = Inl e \<longrightarrow>
      generateTreatmentPlan ds outcome =
        ([Fetch (generation_request ds), ConsoleError ''Error generating treatment plan:'' e],
         Inr fallback_plan)) \<and>
   (\<forall>data. generateTreatmentPlan_try outcome = Inr data \<longrightarrow>
      outcome = Response True (Some data) \<and> passes_validation data \<and>
      generateTreatmentPlan ds outcome = ([Fetch (generation_request ds)], Inr data)) \<and>
   (snd (generateTreatmentPlan ds outcome) = Inr fallback_plan \<or>
    (\<exists>data. outcome = Response True (Some data) \<and> passes_validation data \<and>
       snd (generateTreatmentPlan ds outcome) = Inr data)) \<and>
   Toast generation_failed_toast \<notin> set (handleAssess env s)"
proof (intro conjI allI impI)
  fix e assume "generateTreatmentPlan_try outcome = Inl e"
  then show "generateTreatmentPlan ds outcome =
        ([Fetch (generation_request ds), ConsoleError ''Error generating treatment plan:'' e],
         Inr fallback_plan)"
    by (simp add: generateTreatmentPlan_def)
next
  fix data assume t: "generateTreatmentPlan_try outcome = Inr data"
  then show "outcome = Response True (Some data)" and "passes_validation data"
    by (simp_all add: try_Inr_iff)
  from t show "generateTreatmentPlan ds outcome = ([Fetch (generation_request ds)], Inr data)"
    by (simp add: generateTreatmentPlan_def)
next
  show "snd (generateTreatmentPlan ds outcome) = Inr fallback_plan \<or>
    (\<exists>data. outcome = Response True (Some data) \<and> passes_validation data \<and>
       snd (generateTreatmentPlan ds outcome) = Inr data)"
  proof (cases "generateTreatmentPlan_try outcome")
    case (Inl e)
    then show ?thesis by (simp add: generateTreatmentPlan_def)
  next
    case (Inr data)
    then have "outcome = Response True (Some data) \<and> passes_validation data"
      by (simp add: try_Inr_iff)
    moreover from Inr have "snd (generateTreatmentPlan ds outcome) = Inr data"
      by (simp add: generateTreatmentPlan_def)
    ultimately show ?thesis by blast
  qed
next
  have "generation_failed_toast \<notin> set (toasts (handleAssess env s))"
    using handleAssess_toasts[of env s]
    by (auto simp: generation_failed_toast_def no_image_toast_def assessment_failed_toast_def
        assessment_complete_toast_def)
  then show "Toast generation_failed_toast \<notin> set (handleAssess env s)"
    by (simp add: toasts_set)
qed

theorem generateTreatmentPlan_never_rejects_witness:
  "generateTreatmentPlan_try Rejected = Inl NetworkError \<and>
   generateTreatmentPlan [leaf_rust] Rejected =
     ([Fetch (generation_request [leaf_rust]),
       ConsoleError ''Error generating treatment plan:'' NetworkError],
      Inr fallback_plan) \<and>
   generateTreatmentPlan_try (Response True (Some steps_only)) = Inr steps_only \<and>
   passes_validation steps_only \<and>
   generateTreatmentPlan [leaf_rust] (Response True (Some steps_only)) =
     ([Fetch (generation_request [leaf_rust])], Inr steps_only) \<and>
   Toast generation_failed_toast \<notin>
     set (handleAssess (env_of one_disease_found Rejected) image_selected)"
proof -
  have a: "generateTreatmentPlan_try Rejected = Inl NetworkError"
    by (simp add: generateTreatmentPlan_try_def)
  have b: "generateTreatmentPlan_try (Response True (Some steps_only)) = Inr steps_only"
    by (simp add: generateTreatmentPlan_try_def plan_fields_def steps_only_def TreatmentPlan_def)
  note r = generateTreatmentPlan_never_rejects[of Rejected "[leaf_rust]" "env_of one_disease_found Rejected" image_selected]
  note v = generateTreatmentPlan_never_rejects[of "Response True (Some steps_only)" "[leaf_rust]"
      "env_of one_disease_found Rejected" image_selected]
  from r a have 1: "generateTreatmentPlan [leaf_rust] Rejected =
     ([Fetch (generation_request [leaf_rust]),
       ConsoleError ''Error generating treatment plan:'' NetworkError],
      Inr fallback_plan)" by blast
  from v b have 2: "passes_validation steps_only"
    and 3: "generateTreatmentPlan [leaf_rust] (Response True (Some steps_only)) =
     ([Fetch (generation_request [leaf_rust])], Inr steps_only)" by blast+
  from r have 4: "Toast generation_failed_toast \<notin>
     set (handleAssess (env_of one_disease_found Rejected) image_selected)" by blast
  from a b 1 2 3 4 show ?thesis by blast
qed

subsection \<open>The assessment run\<close>

lemma treatment_stage_fetched:
  "fetched_urls (treatment_stage env ds) = [''/api/generate-treatment'']"
proof (cases "\<exists>data. generation env = Response True (Some data) \<and> passes_validation data")
  case True
  then show ?thesis by (auto simp: treatment_stage_valid generation_request_def)
next
  case False
  then obtain e where "treatment_stage env ds =
           [Fetch (generation_request ds), ConsoleError ''Error generating treatment plan:'' e,
            SetTreatmentPlan fallback_plan, SetIsGeneratingTreatment False]"
    using treatment_stage_invalid[of env ds] by blast
  then show ?thesis by (simp add: generation_request_def)
qed

lemma treatment_stage_head:
  "\<exists>rest. treatment_stage env ds = Fetch (generation_request ds) # rest"
  by (cases "generateTreatmentPlan_try (generation env)")
     (simp_all add: treatment_stage_def generateTreatmentPlan_def)

lemmas run_defs =
  handleAssess_def assess_try_def treatment_stage_def generateTreatmentPlan_def
  generateTreatmentPlan_try_def env_of_def one_disease_found_def image_selected_def
  handleImageSelect_def initial_state_def

text \<open>
  C3. In every run of \<open>handleAssess\<close>, for every disease list: when the generation service
  is called at all, the diagnostic service has answered with an \<open>ok\<close> response carrying
  that list, the call to it came first, and these are the only two network calls. So the
  generation service is never called when diagnosis fails.
\<close>

theorem generation_only_after_diagnosis:
  assumes "''/api/generate-treatment'' \<in> set (fetched_urls (handleAssess env s))"
  shows "\<exists>ds. diagnosis env = Response True (HealthAssessment ds) \<and>
           Fetch (generation_request ds) \<in> set (handleAssess env s) \<and>
           fetched_urls (handleAssess env s) =
             [''https://api.plant.id/v2/health_assessment'', ''/api/generate-treatment'']"
proof (cases "selectedImage s")
  case None
  with assms show ?thesis by (simp add: handleAssess_no_image)
next
  case (Some f)
  note img = this
  show ?thesis
  proof (cases "reader_result env")
    case None
    with img assms show ?thesis by (simp add: handleAssess_read_failed)
  next
    case (Some base64)
    show ?thesis
    proof (cases "\<exists>ds. diagnosis env = Response True (HealthAssessment ds)")
      case True
      then obtain ds where d: "diagnosis env = Response True (HealthAssessment ds)" by blast
      obtain rest where r: "treatment_stage env ds = Fetch (generation_request ds) # rest"
        using treatment_stage_head by blast
      have "fetched_urls (handleAssess env s) =
             [''https://api.plant.id/v2/health_assessment'', ''/api/generate-treatment'']"
        by (simp add: handleAssess_diagnosis_ok[OF img Some d] fetched_urls_append
            treatment_stage_fetched diagnosis_request_def)
      moreover have "Fetch (generation_request ds) \<in> set (handleAssess env s)"
        by (simp add: handleAssess_diagnosis_ok[OF img Some d] r)
      ultimately show ?thesis using d by blast
    next
      case False
      then have "\<And>ds. diagnosis env \<noteq> Response True (HealthAssessment ds)" by blast
      from handleAssess_diagnosis_failed[OF img Some this] assms show ?thesis
        by (auto simp: diagnosis_request_def)
    qed
  qed
qed

theorem generation_only_after_diagnosis_witness:
  "''/api/generate-treatment'' \<in>
     set (fetched_urls (handleAssess (env_of one_disease_found Rejected) image_selected)) \<and>
   (\<exists>ds. diagnosis (env_of one_disease_found Rejected) = Response True (HealthAssessment ds) \<and>
      Fetch (generation_request ds) \<in>
        set (handleAssess (env_of one_disease_found Rejected) image_selected) \<and>
      fetched_urls (handleAssess (env_of one_disease_found Rejected) image_selected) =
        [''https://api.plant.id/v2/health_assessment'', ''/api/generate-treatment''])"
proof -
  have h: "''/api/generate-treatment'' \<in>
     set (fetched_urls (handleAssess (env_of one_disease_found Rejected) image_selected))"
    by (simp add: run_defs generation_request_def)
  from h generation_only_after_diagnosis[OF h] show ?thesis by blast
qed

text \<open>
  C4. When the call of the diagnostic service fails or its response is not \<open>ok\<close>, the run
  shows the notification "Assessment Failed" and nothing else, has made that one network
  call only (no retry), and the stored result is in every state of the run what it was
  before: no result of this assessment is stored or shown. The run ends with
  \<open>isLoading\<close> reset.
\<close>

theorem diagnosis_failure_aborts:
  assumes "selectedImage s = Some f" and "reader_result env = Some base64"
    and "diagnosis env = Rejected \<or> (\<exists>parsed. diagnosis env = Response False parsed)"
  shows "toasts (handleAssess env s) = [assessment_failed_toast] \<and>
         fetched_urls (handleAssess env s) = [''https://api.plant.id/v2/health_assessment''] \<and>
         (\<forall>s' \<in> set (states s (handleAssess env s)). result s' = result s) \<and>
         result (final_state s (handleAssess env s)) = result s \<and>
         isLoading (final_state s (handleAssess env s)) = False"
proof -
  from assms(3) have "\<And>ds. diagnosis env \<noteq> Response True (HealthAssessment ds)" by auto
  from handleAssess_diagnosis_failed[OF assms(1,2) this]
  obtain e where "handleAssess env s =
           [SetIsLoading True,
            Fetch (diagnosis_request (api_key env) (second_part (split CHR '','' base64))),
            ConsoleError ''Error assessing plant health:'' e,
            Toast assessment_failed_toast,
            SetIsLoading False]" by blast
  then show ?thesis
    by (simp add: final_state_def diagnosis_request_def)
qed

theorem diagnosis_failure_aborts_witness:
  "selectedImage image_selected = Some leaf_jpg \<and>
   reader_result (env_of (Response False NotJson) Rejected) = Some ''data:image/jpeg;base64,AAAA'' \<and>
   diagnosis (env_of (Response False NotJson) Rejected) = Response False NotJson \<and>
   toasts (handleAssess (env_of (Response False NotJson) Rejected) image_selected) =
     [assessment_failed_toast] \<and>
   fetched_urls (handleAssess (env_of (Response False NotJson) Rejected) image_selected) =
     [''https://api.plant.id/v2/health_assessment''] \<and>
   result (final_state image_selected
     (handleAssess (env_of (Response False NotJson) Rejected) image_selected)) = None"
proof -
  have a: "selectedImage image_selected = Some leaf_jpg"
    by (simp add: image_selected_def handleImageSelect_def)
  have b: "reader_result (env_of (Response False NotJson) Rejected) = Some ''data:image/jpeg;base64,AAAA''"
    by (simp add: env_of_def)
  have c: "diagnosis (env_of (Response False NotJson) Rejected) = Response False NotJson"
    by (simp add: env_of_def)
  have d: "result image_selected = None"
    by (simp add: image_selected_def handleImageSelect_def)
  have "diagnosis (env_of (Response False NotJson) Rejected) = Rejected \<or>
    (\<exists>parsed. diagnosis (env_of (Response False NotJson) Rejected) = Response False parsed)"
    using c by blast
  from diagnosis_failure_aborts[OF a b this] a b c d show ?thesis by simp
qed

text \<open>
  C7. When diagnosis succeeds with an empty disease list, the run still calls the
  generation service; the request body carries the empty list and the prompt in which the
  joined disease descriptions are the empty string.
\<close>

theorem empty_disease_list_still_requests_plan:
  assumes "selectedImage s = Some f" and "reader_result env = Some base64"
    and "diagnosis env = Response True (HealthAssessment [])"
  shows "Fetch (generation_request []) \<in> set (handleAssess env s) \<and>
         url (generation_request []) = ''/api/generate-treatment'' \<and>
         body (generation_request []) = GenerateTreatmentBody [] (treatment_prompt []) \<and>
         join '', '' (map describe_disease []) = '''' \<and>
         treatment_prompt [] = prompt_head @ '''' @ prompt_tail"
proof -
  obtain rest where r: "treatment_stage env [] = Fetch (generation_request []) # rest"
    using treatment_stage_head by blast
  have "Fetch (generation_request []) \<in> set (handleAssess env s)"
    by (simp add: handleAssess_diagnosis_ok[OF assms] r)
  then show ?thesis
    by (simp add: generation_request_def treatment_prompt_def)
qed

theorem empty_disease_list_still_requests_plan_witness:
  "selectedImage image_selected = Some leaf_jpg \<and>
   reader_result (env_of (Response True (HealthAssessment [])) Rejected) =
     Some ''data:image/jpeg;base64,AAAA'' \<and>
   diagnosis (env_of (Response True (HealthAssessment [])) Rejected) =
     Response True (HealthAssessment []) \<and>
   Fetch (generation_request []) \<in>
     set (handleAssess (env_of (Response True (HealthAssessment [])) Rejected) image_selected) \<and>
   treatment_prompt [] =
     ''Act as a plant pathologist. For these detected diseases: . \<newline>'' @
     ''        Provide:\<newline>'' @
     ''        1. Immediate treatment steps\<newline>'' @
     ''        2. Long-term prevention strategies\<newline>'' @
     ''        3. Organic alternatives\<newline>'' @
     ''        4. Chemical solutions (if necessary)\<newline>'' @
     ''        Format as JSON with markdown formatting in descriptions.''"
proof -
  have a: "selectedImage image_selected = Some leaf_jpg"
    by (simp add: image_selected_def handleImageSelect_def)
  have b: "reader_result (env_of (Response True (HealthAssessment [])) Rejected) =
     Some ''data:image/jpeg;base64,AAAA''"
    by (simp add: env_of_def)
  have c: "diagnosis (env_of (Response True (HealthAssessment [])) Rejected) =
     Response True (HealthAssessment [])"
    by (simp add: env_of_def)
  have p: "prompt_head @ '''' @ prompt_tail =
     ''Act as a plant pathologist. For these detected diseases: . \<newline>'' @
     ''        Provide:\<newline>'' @
     ''        1. Immediate treatment steps\<newline>'' @
     ''        2. Long-term prevention strategies\<newline>'' @
     ''        3. Organic alternatives\<newline>'' @
     ''        4. Chemical solutions (if necessary)\<newline>'' @
     ''        Format as JSON with markdown formatting in descriptions.''"
    by (simp add: prompt_head_def prompt_tail_def)
  from empty_disease_list_still_requests_plan[OF a b c] a b c p show ?thesis by simp
qed

text \<open>
  C8. Expected: whenever the generation of the treatment plan fails, the user is notified
  that the plan could not be generated while the diagnosis stays valid. In the run below
  diagnosis finds one disease and the generation call is rejected, and the only
  notification is "Assessment Complete": the error is caught inside
  \<open>generateTreatmentPlan\<close>, so the \<open>catch\<close> block of \<open>handleAssess\<close> that holds the
  notification "Treatment Plan Generation Failed" is not entered.
\<close>

theorem generation_failure_shows_no_failure_notification:
  "toasts (handleAssess (env_of one_disease_found Rejected) image_selected) =
     [assessment_complete_toast] \<and>
   generation_failed_toast \<notin> set (toasts (handleAssess (env_of one_disease_found Rejected) image_selected))"
  by (simp add: handleAssess_def assess_try_def treatment_stage_def
        generateTreatmentPlan_def generateTreatmentPlan_try_def env_of_def one_disease_found_def
        image_selected_def handleImageSelect_def initial_state_def
        assessment_complete_toast_def generation_failed_toast_def)

subsection \<open>The displayed treatment plan\<close>

lemma final_state_in_states: "final_state s es \<in> set (states s es)"
proof -
  have "states s es \<noteq> []" by (cases es) simp_all
  then show ?thesis unfolding final_state_def by (rule last_in_set)
qed

lemma handleAssess_states_result:
  assumes "s' \<in> set (states s (handleAssess env s))"
  shows "result s' = result s \<or>
         (\<exists>r. result s' = Some r \<and>
            (treatment_plan r = pending_plan \<or> treatment_plan r = fallback_plan \<or>
             passes_validation (treatment_plan r)))"
proof (cases "selectedImage s")
  case None
  with assms show ?thesis by (auto simp: handleAssess_no_image)
next
  case (Some f)
  note img = this
  show ?thesis
  proof (cases "reader_result env")
    case None
    with img assms show ?thesis by (auto simp: handleAssess_read_failed)
  next
    case (Some base64)
    show ?thesis
    proof (cases "\<exists>ds. diagnosis env = Response True (HealthAssessment ds)")
      case True
      then obtain ds where d: "diagnosis env = Response True (HealthAssessment ds)" by blast
      note run = handleAssess_diagnosis_ok[OF img Some d]
      show ?thesis
      proof (cases "\<exists>data. generation env = Response True (Some data) \<and> passes_validation data")
        case True
        then obtain data where g: "generation env = Response True (Some data)"
          and v: "passes_validation data" by blast
        from assms show ?thesis
          unfolding run treatment_stage_valid[OF g v]
          using v by auto
      next
        case False
        then obtain e where "treatment_stage env ds =
           [Fetch (generation_request ds), ConsoleError ''Error generating treatment plan:'' e,
            SetTreatmentPlan fallback_plan, SetIsGeneratingTreatment False]"
          using treatment_stage_invalid[of env ds] by blast
        with assms show ?thesis
          unfolding run by auto
      qed
    next
      case False
      then have "\<And>ds. diagnosis env \<noteq> Response True (HealthAssessment ds)" by blast
      from handleAssess_diagnosis_failed[OF img Some this] assms show ?thesis
        by auto
    qed
  qed
qed

lemma reachable_plan:
  assumes "reachable s" and "result s = Some r"
  shows "treatment_plan r = pending_plan \<or> treatment_plan r = fallback_plan \<or>
         passes_validation (treatment_plan r)"
  using assms
proof (induction arbitrary: r rule: reachable.induct)
  case start
  then show ?case by (simp add: initial_state_def)
next
  case (select s createObjectURL e)
  then show ?case by (cases e) (simp_all add: handleImageSelect_def)
next
  case (assess s s' env)
  from handleAssess_states_result[OF assess.hyps(3)]
  show ?case
  proof
    assume "result s' = result s"
    with assess.prems have "result s = Some r" by simp
    then show ?thesis by (rule assess.IH)
  next
    assume "\<exists>r. result s' = Some r \<and>
            (treatment_plan r = pending_plan \<or> treatment_plan r = fallback_plan \<or>
             passes_validation (treatment_plan r))"
    with assess.prems show ?thesis by auto
  qed
qed

lemma all_empty_pending: "all_empty pending_plan"
  by (simp add: all_empty_def pending_plan_def TreatmentPlan_def plan_fields_def is_empty_list_def)

lemma all_populated_fallback: "all_populated fallback_plan"
  by (simp add: all_populated_def fallback_plan_def TreatmentPlan_def plan_fields_def
      is_populated_list_def)

lemma reachable_image_selected: "reachable image_selected"
  unfolding image_selected_def
  by (rule reachable.select[OF reachable.start]) (simp add: initial_state_def)

lemma reachable_partly_populated: "reachable partly_populated"
  unfolding partly_populated_def
  by (rule reachable.assess[OF reachable_image_selected _ final_state_in_states])
     (simp add: image_selected_def handleImageSelect_def initial_state_def)

lemma displayed_partly_populated:
  "displayed partly_populated =
     Some \<lparr>diseases = [leaf_rust], treatment_plan = steps_only, imageUrl = ''blob:leaf.jpg''\<rparr>"
  by (simp add: partly_populated_def displayed_def final_state_def run_defs
      plan_fields_def steps_only_def TreatmentPlan_def blob_url_def leaf_jpg_def)

text \<open>
  C2, as the code has it. In every reachable state a displayed result holds as its
  treatment plan the pending placeholder, whose four lists are empty, or the fallback plan,
  whose four lists are non-empty, or a response of the generation service that passed the
  validation, in which each of the four fields is present and truthy. The validation does
  not look at the length of a list: an empty array is truthy.
\<close>

theorem displayed_plan_pending_fallback_or_validated:
  assumes "reachable s" and "displayed s = Some r"
  shows "treatment_plan r = pending_plan \<and> all_empty (treatment_plan r) \<or>
         treatment_plan r = fallback_plan \<and> all_populated (treatment_plan r) \<or>
         passes_validation (treatment_plan r) \<and> list_all (has_field (treatment_plan r)) plan_fields"
proof -
  from assms have "treatment_plan r = pending_plan \<or> treatment_plan r = fallback_plan \<or>
         passes_validation (treatment_plan r)"
    using reachable_plan by (simp add: displayed_def)
  then show ?thesis
    using all_empty_pending all_populated_fallback passes_validation_has_field
    by (auto simp: list_all_iff)
qed

theorem displayed_plan_pending_fallback_or_validated_witness:
  "reachable partly_populated \<and>
   displayed partly_populated =
     Some \<lparr>diseases = [leaf_rust], treatment_plan = steps_only, imageUrl = ''blob:leaf.jpg''\<rparr> \<and>
   passes_validation steps_only \<and> list_all (has_field steps_only) plan_fields \<and>
   steps_only \<noteq> pending_plan \<and> steps_only \<noteq> fallback_plan"
  using displayed_plan_pending_fallback_or_validated[OF reachable_partly_populated displayed_partly_populated]
    reachable_partly_populated displayed_partly_populated
  by (simp add: steps_only_def pending_plan_def fallback_plan_def TreatmentPlan_def)

text \<open>
  The claim that the four lists are always all empty or all non-empty fails: the state
  \<open>partly_populated\<close> is reachable and displays a plan with one step and three empty
  lists. (The view allows for this: it renders the "Chemical Solutions" block only when
  that list is non-empty.)
\<close>

theorem displayed_plan_partly_populated:
  "reachable partly_populated \<and>
   displayed partly_populated =
     Some \<lparr>diseases = [leaf_rust], treatment_plan = steps_only, imageUrl = ''blob:leaf.jpg''\<rparr> \<and>
   \<not> all_empty steps_only \<and> \<not> all_populated steps_only"
  using reachable_partly_populated displayed_partly_populated
  by (simp add: all_empty_def all_populated_def steps_only_def TreatmentPlan_def plan_fields_def
      is_empty_list_def is_populated_list_def)

subsection \<open>Confidence values\<close>











end
